theory Spec2Isabelle
  imports Complex_Main
begin

section \<open>JavaScript values read by the component\<close>

text \<open>
  The two endpoints answer with JSON, and \<open>res.json()\<close> turns the body into a JavaScript
  value. TypeScript's interfaces are erased at run time, so the component works on
  whatever value arrives. A value is modelled as it is after parsing: an object is the
  list of its own properties (looked up by name), and a number is the real number its
  finite double denotes. \<open>NaN\<close> and the infinities, which no ordinary JSON number
  denotes, and the sign of zero are not modelled.
\<close>

datatype jsval =
    JUndefined
  | JNull
  | JBool bool
  | JNum real
  | JStr string
  | JArr "jsval list"
  | JObj "(string \<times> jsval) list"

datatype exn = TypeError | SyntaxError | NetworkError

text \<open>ToBoolean: \<open>undefined\<close>, \<open>null\<close>, \<open>false\<close>, \<open>0\<close> and \<open>""\<close> are falsy.\<close>

fun truthy :: "jsval \<Rightarrow> bool" where
  "truthy JUndefined = False"
| "truthy JNull = False"
| "truthy (JBool b) = b"
| "truthy (JNum x) = (x \<noteq> 0)"
| "truthy (JStr s) = (s \<noteq> [])"
| "truthy (JArr xs) = True"
| "truthy (JObj kvs) = True"

fun typeof :: "jsval \<Rightarrow> string" where
  "typeof JUndefined = ''undefined''"
| "typeof JNull = ''object''"
| "typeof (JBool b) = ''boolean''"
| "typeof (JNum x) = ''number''"
| "typeof (JStr s) = ''string''"
| "typeof (JArr xs) = ''object''"
| "typeof (JObj kvs) = ''object''"

text \<open>The operand test of \<open>??\<close> and \<open>?.\<close>.\<close>

fun nullish :: "jsval \<Rightarrow> bool" where
  "nullish JUndefined = True"
| "nullish JNull = True"
| "nullish v = False"

text \<open>
  Property read \<open>v.k\<close>. Reading a property of \<open>undefined\<close> or \<open>null\<close> throws a
  TypeError. An object yields its own property or \<open>undefined\<close>. Booleans, numbers,
  strings and arrays yield \<open>undefined\<close>: the component reads only the names
  \<open>price\<close>, \<open>change24h\<close>, \<open>signal\<close>, \<open>direction\<close>, \<open>entryPrice\<close>, \<open>technicalData\<close>,
  \<open>targetPrice\<close>, \<open>exitPrice\<close>, \<open>stopPrice\<close>, \<open>stopLoss\<close> and \<open>leverage\<close>, none of which
  is a property of a built-in prototype.
\<close>

fun get_prop :: "jsval \<Rightarrow> string \<Rightarrow> exn + jsval" where
  "get_prop JUndefined k = Inl TypeError"
| "get_prop JNull k = Inl TypeError"
| "get_prop (JObj kvs) k = Inr (case map_of kvs k of Some v \<Rightarrow> v | None \<Rightarrow> JUndefined)"
| "get_prop v k = Inr JUndefined"

subsection \<open>Expressions that may throw\<close>

text \<open>
  An expression evaluates to \<open>Inr\<close> its value or to \<open>Inl\<close> the exception it throws.
  The operators below are those of the source; each evaluates its right operand only
  when JavaScript does.
\<close>

definition bindE :: "exn + 'a \<Rightarrow> ('a \<Rightarrow> exn + 'b) \<Rightarrow> exn + 'b" where
  "bindE m f = (case m of Inl e \<Rightarrow> Inl e | Inr v \<Rightarrow> f v)"

text \<open>\<open>a.k\<close>\<close>

definition js_get :: "exn + jsval \<Rightarrow> string \<Rightarrow> exn + jsval" where
  "js_get a k = bindE a (\<lambda>v. get_prop v k)"

text \<open>\<open>a?.k\<close>\<close>

definition js_opt_get :: "exn + jsval \<Rightarrow> string \<Rightarrow> exn + jsval" where
  "js_opt_get a k = bindE a (\<lambda>v. if nullish v then Inr JUndefined else get_prop v k)"

text \<open>\<open>a || b\<close>\<close>

definition js_or :: "exn + jsval \<Rightarrow> exn + jsval \<Rightarrow> exn + jsval" where
  "js_or a b = bindE a (\<lambda>v. if truthy v then Inr v else b)"

text \<open>\<open>a && b\<close>\<close>

definition js_and :: "exn + jsval \<Rightarrow> exn + jsval \<Rightarrow> exn + jsval" where
  "js_and a b = bindE a (\<lambda>v. if truthy v then b else Inr v)"

text \<open>\<open>a ?? b\<close>\<close>

definition js_coalesce :: "exn + jsval \<Rightarrow> exn + jsval \<Rightarrow> exn + jsval" where
  "js_coalesce a b = bindE a (\<lambda>v. if nullish v then b else Inr v)"

text \<open>\<open>Math.round\<close> on a number: the nearest integer, a tie going towards \<open>+\<infinity>\<close>.\<close>

definition Math_round :: "real \<Rightarrow> real" where
  "Math_round x = of_int \<lfloor>x + 1 / 2\<rfloor>"

section \<open>The component's state\<close>

datatype Screen = Landing | Loading | Report

record BtcPrice =
  price :: jsval
  change24h :: jsval

record ReportData =
  direction :: jsval
  entryPrice :: jsval
  targetPrice :: jsval
  stopPrice :: jsval
  leverage :: jsval

text \<open>The three \<open>useState\<close> cells; \<open>None\<close> is \<open>null\<close>.\<close>

record app_state =
  screen :: Screen
  btcPrice :: "BtcPrice option"
  report :: "ReportData option"

definition initial_state :: app_state where
  "initial_state = \<lparr>screen = Landing, btcPrice = None, report = None\<rparr>"

definition setScreen :: "Screen \<Rightarrow> app_state \<Rightarrow> app_state" where
  "setScreen v s = s\<lparr>screen := v\<rparr>"

definition setBtcPrice :: "BtcPrice option \<Rightarrow> app_state \<Rightarrow> app_state" where
  "setBtcPrice v s = s\<lparr>btcPrice := v\<rparr>"

definition setReport :: "ReportData option \<Rightarrow> app_state \<Rightarrow> app_state" where
  "setReport v s = s\<lparr>report := v\<rparr>"

section \<open>Normalisation of the two results\<close>

definition fallbackBtcPrice :: BtcPrice where
  "fallbackBtcPrice = \<lparr>price = JNum 113279, change24h = JNum (- 2.76)\<rparr>"

definition fallbackReport :: ReportData where
  "fallbackReport =
     \<lparr>direction = JStr ''LONG'', entryPrice = JNum 119500, targetPrice = JNum 121500,
      stopPrice = JNum 119200, leverage = JNum 30\<rparr>"

text \<open>
  Lines 50 to 58: the value handed to \<open>setBtcPrice\<close>. The test
  \<open>priceData && typeof priceData.price === 'number'\<close> reads \<open>price\<close> only when
  \<open>priceData\<close> is truthy; the branch taken when the test holds is the case \<open>JNum x\<close>.
\<close>

definition processPrice :: "jsval \<Rightarrow> exn + BtcPrice" where
  "processPrice priceData =
     (if truthy priceData then
        bindE (get_prop priceData ''price'') (\<lambda>p.
          case p of
            JNum x \<Rightarrow>
              bindE (get_prop priceData ''change24h'') (\<lambda>c.
                Inr \<lparr>price = JNum (Math_round x),
                     change24h = (if typeof c = ''number'' then c else JNum 0)\<rparr>)
          | _ \<Rightarrow> Inr \<lparr>price = JNum 113279, change24h = JNum (- 2.76)\<rparr>)
      else Inr \<lparr>price = JNum 113279, change24h = JNum (- 2.76)\<rparr>)"

text \<open>Line 61: \<open>reportData && (reportData.signal || reportData.direction)\<close>.\<close>

definition reportPresent :: "jsval \<Rightarrow> exn + jsval" where
  "reportPresent reportData =
     js_and (Inr reportData)
       (js_or (js_get (Inr reportData) ''signal'') (js_get (Inr reportData) ''direction''))"

text \<open>Lines 63 to 67: the five fields of the object handed to \<open>setReport\<close>.\<close>

definition reportDirection :: "jsval \<Rightarrow> exn + jsval" where
  "reportDirection reportData =
     js_or
       (js_or (js_get (Inr reportData) ''signal'') (js_get (Inr reportData) ''direction''))
       (Inr (JStr ''LONG''))"

definition reportEntryPrice :: "jsval \<Rightarrow> exn + jsval" where
  "reportEntryPrice reportData =
     js_coalesce
       (js_coalesce (js_get (Inr reportData) ''entryPrice'')
          (js_opt_get (js_get (Inr reportData) ''technicalData'') ''entryPrice''))
       (Inr (JNum 119500))"

definition reportTargetPrice :: "jsval \<Rightarrow> exn + jsval" where
  "reportTargetPrice reportData =
     js_coalesce
       (js_coalesce (js_get (Inr reportData) ''targetPrice'')
          (js_get (Inr reportData) ''exitPrice''))
       (Inr (JNum 121500))"

definition reportStopPrice :: "jsval \<Rightarrow> exn + jsval" where
  "reportStopPrice reportData =
     js_coalesce
       (js_coalesce (js_get (Inr reportData) ''stopPrice'')
          (js_get (Inr reportData) ''stopLoss''))
       (Inr (JNum 119200))"

definition reportLeverage :: "jsval \<Rightarrow> exn + jsval" where
  "reportLeverage reportData =
     js_coalesce (js_get (Inr reportData) ''leverage'') (Inr (JNum 30))"

text \<open>Lines 61 to 78: the value handed to \<open>setReport\<close>, fields evaluated in source order.\<close>

definition processReport :: "jsval \<Rightarrow> exn + ReportData" where
  "processReport reportData =
     bindE (reportPresent reportData) (\<lambda>c.
       if truthy c then
         bindE (reportDirection reportData) (\<lambda>d.
         bindE (reportEntryPrice reportData) (\<lambda>e.
         bindE (reportTargetPrice reportData) (\<lambda>t.
         bindE (reportStopPrice reportData) (\<lambda>sp.
         bindE (reportLeverage reportData) (\<lambda>l.
           Inr \<lparr>direction = d, entryPrice = e, targetPrice = t, stopPrice = sp,
                leverage = l\<rparr>)))))
       else
         Inr \<lparr>direction = JStr ''LONG'', entryPrice = JNum 119500, targetPrice = JNum 121500,
              stopPrice = JNum 119200, leverage = JNum 30\<rparr>)"

section \<open>Promises\<close>

text \<open>
  A promise is modelled by the way it settles and by the time, in milliseconds after
  \<open>startBraincast\<close> was invoked, at which it does. Here both fetches settle: the
  browser fulfils a fetch with a response or rejects it. Fetches that never settle are
  taken up further down.
\<close>

datatype 'a settled = Fulfilled 'a | Rejected exn

type_synonym 'a promise = "nat \<times> 'a settled"

text \<open>
  A response, as far as the component uses it: \<open>res.json()\<close> returns a promise that
  settles, some milliseconds after the call, with the parsed body or with the rejection
  of a body that is not JSON.
\<close>

datatype response = Response "jsval promise"

fun json :: "response \<Rightarrow> jsval promise" where
  "json (Response p) = p"

text \<open>
  \<open>p.then(f)\<close> for a callback that returns a promise: a rejection of \<open>p\<close> passes
  through; otherwise the result settles as the promise returned by \<open>f\<close> does, whose
  time counts from the moment \<open>f\<close> runs.
\<close>

definition then_p :: "'a promise \<Rightarrow> ('a \<Rightarrow> 'b promise) \<Rightarrow> 'b promise" where
  "then_p p f =
     (case p of
        (t, Fulfilled v) \<Rightarrow> (case f v of (d, r) \<Rightarrow> (t + d, r))
      | (t, Rejected e) \<Rightarrow> (t, Rejected e))"

text \<open>\<open>p.catch(h)\<close> for a handler that returns a value.\<close>

definition catch_p :: "'a promise \<Rightarrow> (exn \<Rightarrow> 'a) \<Rightarrow> 'a promise" where
  "catch_p p h =
     (case p of
        (t, Fulfilled v) \<Rightarrow> (t, Fulfilled v)
      | (t, Rejected e) \<Rightarrow> (t, Fulfilled (h e)))"

text \<open>
  \<open>new Promise((resolve) => setTimeout(resolve, ms))\<close>: the timer calls \<open>resolve\<close>
  with no argument, not before \<open>ms\<close> milliseconds have passed and \<open>late\<close> milliseconds
  after that.
\<close>

definition timeout_promise :: "nat \<Rightarrow> nat \<Rightarrow> jsval promise" where
  "timeout_promise ms late = (ms + late, Fulfilled JUndefined)"

text \<open>
  \<open>Promise.all\<close>: fulfilled with all the values once the last promise is fulfilled,
  rejected as soon as the first promise is rejected (the leftmost of those rejected at
  the same time).
\<close>

fun promise_all :: "'a promise list \<Rightarrow> 'a list promise" where
  "promise_all [] = (0, Fulfilled [])"
| "promise_all ((t, r) # ps) =
     (case (r, promise_all ps) of
        (Fulfilled v, (t', Fulfilled vs)) \<Rightarrow> (max t t', Fulfilled (v # vs))
      | (Fulfilled v, (t', Rejected e')) \<Rightarrow> (t', Rejected e')
      | (Rejected e, (t', Fulfilled vs)) \<Rightarrow> (t, Rejected e)
      | (Rejected e, (t', Rejected e')) \<Rightarrow> (if t \<le> t' then (t, Rejected e) else (t', Rejected e')))"

text \<open>Array destructuring \<open>[a, b] = xs\<close>: a missing element is \<open>undefined\<close>.\<close>

definition element :: "jsval list \<Rightarrow> nat \<Rightarrow> jsval" where
  "element xs i = (if i < length xs then xs ! i else JUndefined)"

section \<open>The handlers\<close>

text \<open>Lines 35 to 37: the statements of \<open>startBraincast\<close> before the fetches.\<close>

definition startBraincast_begin :: "app_state \<Rightarrow> app_state" where
  "startBraincast_begin s = setReport None (setBtcPrice None (setScreen Loading s))"

text \<open>
  Lines 47 to 78, the body of \<open>try\<close>, run on the settled \<open>Promise.all\<close>. The result is
  the exception that left the body, if one did, and the state at that moment.
\<close>

definition try_block :: "jsval list settled \<Rightarrow> app_state \<Rightarrow> exn option \<times> app_state" where
  "try_block awaited s =
     (case awaited of
        Rejected e \<Rightarrow> (Some e, s)
      | Fulfilled xs \<Rightarrow>
          (case processPrice (element xs 0) of
             Inl e \<Rightarrow> (Some e, s)
           | Inr bp \<Rightarrow>
               (case processReport (element xs 1) of
                  Inl e \<Rightarrow> (Some e, setBtcPrice (Some bp) s)
                | Inr rd \<Rightarrow> (None, setReport (Some rd) (setBtcPrice (Some bp) s)))))"

text \<open>Lines 81 and 82, the body of \<open>catch\<close>.\<close>

definition catch_block :: "app_state \<Rightarrow> app_state" where
  "catch_block s =
     setReport
       (Some \<lparr>direction = JStr ''LONG'', entryPrice = JNum 119500, targetPrice = JNum 121500,
              stopPrice = JNum 119200, leverage = JNum 30\<rparr>)
       (setBtcPrice (Some \<lparr>price = JNum 113279, change24h = JNum (- 2.76)\<rparr>) s)"

text \<open>Lines 46 to 86: what \<open>startBraincast\<close> does once the \<open>await\<close> is over.\<close>

definition startBraincast_resume :: "jsval list settled \<Rightarrow> app_state \<Rightarrow> app_state" where
  "startBraincast_resume awaited s =
     (case try_block awaited s of
        (None, s') \<Rightarrow> setScreen Report s'
      | (Some e, s') \<Rightarrow> setScreen Report (catch_block s'))"

text \<open>
  What the browser contributes to one run: how the two fetches settle, and how late
  the timer fires.
\<close>

record run_env =
  price_fetch :: "response promise"
  report_fetch :: "response promise"
  timer_late :: nat

text \<open>Lines 40 to 47: the three promises and their join.\<close>

definition pricePromise :: "run_env \<Rightarrow> jsval promise" where
  "pricePromise env = catch_p (then_p (price_fetch env) json) (\<lambda>e. JNull)"

definition reportPromise :: "run_env \<Rightarrow> jsval promise" where
  "reportPromise env = catch_p (then_p (report_fetch env) json) (\<lambda>e. JNull)"

definition delayPromise :: "run_env \<Rightarrow> jsval promise" where
  "delayPromise env = timeout_promise 3500 (timer_late env)"

definition awaited_all :: "run_env \<Rightarrow> jsval list promise" where
  "awaited_all env = promise_all [pricePromise env, reportPromise env, delayPromise env]"

text \<open>
  \<open>startBraincast\<close> from the click to its last statement: the time at which
  \<open>setScreen('report')\<close> runs and the state it leaves.
\<close>

definition startBraincast :: "run_env \<Rightarrow> app_state \<Rightarrow> nat \<times> app_state" where
  "startBraincast env s =
     (case awaited_all env of
        (t, r) \<Rightarrow> (t, startBraincast_resume r (startBraincast_begin s)))"

text \<open>Lines 90 to 92.\<close>

definition newReport :: "app_state \<Rightarrow> app_state" where
  "newReport s = setScreen Landing s"

section \<open>Fetches that may stay pending\<close>

text \<open>
  Lines 40 and 41 give neither fetch a timeout or an abort signal, so a fetch, or the
  reading of a body, may stay pending for ever. A promise that may do so is \<open>None\<close> when
  it never settles and \<open>Some\<close> of its settling otherwise. The timer always fires.
\<close>

type_synonym 'a eventual = "'a promise option"

datatype live_response = LiveResponse "jsval eventual"

fun live_json :: "live_response \<Rightarrow> jsval eventual" where
  "live_json (LiveResponse p) = p"

text \<open>\<open>p.then(f)\<close>: pending while \<open>p\<close> is, and while the promise returned by \<open>f\<close> is.\<close>

definition then_e :: "'a eventual \<Rightarrow> ('a \<Rightarrow> 'b eventual) \<Rightarrow> 'b eventual" where
  "then_e p f =
     (case p of
        None \<Rightarrow> None
      | Some (t, Rejected e) \<Rightarrow> Some (t, Rejected e)
      | Some (t, Fulfilled v) \<Rightarrow>
          (case f v of None \<Rightarrow> None | Some (d, r) \<Rightarrow> Some (t + d, r)))"

text \<open>\<open>p.catch(h)\<close>: pending while \<open>p\<close> is.\<close>

definition catch_e :: "'a eventual \<Rightarrow> (exn \<Rightarrow> 'a) \<Rightarrow> 'a eventual" where
  "catch_e p h = (case p of None \<Rightarrow> None | Some q \<Rightarrow> Some (catch_p q h))"

fun settled_of :: "'a eventual list \<Rightarrow> 'a promise list" where
  "settled_of [] = []"
| "settled_of (None # ps) = settled_of ps"
| "settled_of (Some q # ps) = q # settled_of ps"

text \<open>
  \<open>Promise.all\<close>: rejected as soon as one of the promises is, whatever the others do;
  otherwise pending while one of them is; otherwise fulfilled with all the values.
\<close>

definition all_e :: "'a eventual list \<Rightarrow> 'a list eventual" where
  "all_e ps =
     (case promise_all (settled_of ps) of
        (t, Rejected e) \<Rightarrow> Some (t, Rejected e)
      | (t, Fulfilled vs) \<Rightarrow> (if None \<in> set ps then None else Some (t, Fulfilled vs)))"

record live_env =
  live_price_fetch :: "live_response eventual"
  live_report_fetch :: "live_response eventual"
  live_timer_late :: nat

definition live_pricePromise :: "live_env \<Rightarrow> jsval eventual" where
  "live_pricePromise env = catch_e (then_e (live_price_fetch env) live_json) (\<lambda>e. JNull)"

definition live_reportPromise :: "live_env \<Rightarrow> jsval eventual" where
  "live_reportPromise env = catch_e (then_e (live_report_fetch env) live_json) (\<lambda>e. JNull)"

definition live_delayPromise :: "live_env \<Rightarrow> jsval eventual" where
  "live_delayPromise env = Some (timeout_promise 3500 (live_timer_late env))"

definition live_awaited_all :: "live_env \<Rightarrow> jsval list eventual" where
  "live_awaited_all env =
     all_e [live_pricePromise env, live_reportPromise env, live_delayPromise env]"

text \<open>
  \<open>startBraincast\<close> with such fetches: the time at which \<open>setScreen('report')\<close> runs,
  if it ever does, and the state the run leaves. While the join is pending the
  \<open>await\<close> of line 47 does not resume and the state stays as lines 35 to 37 left it.
\<close>

definition live_startBraincast :: "live_env \<Rightarrow> app_state \<Rightarrow> nat option \<times> app_state" where
  "live_startBraincast env s =
     (case live_awaited_all env of
        None \<Rightarrow> (None, startBraincast_begin s)
      | Some (t, r) \<Rightarrow> (Some t, startBraincast_resume r (startBraincast_begin s)))"

text \<open>
  A fetch settles when it is rejected, or fulfilled with a response whose body is read
  or refused in the end.
\<close>

definition settles :: "live_response eventual \<Rightarrow> bool" where
  "settles f =
     (case f of
        None \<Rightarrow> False
      | Some (t, Rejected e) \<Rightarrow> True
      | Some (t, Fulfilled (LiveResponse b)) \<Rightarrow> b \<noteq> None)"

text \<open>The fetches of the first model, which all settle, as fetches that may stay pending.\<close>

definition live_fetch :: "response promise \<Rightarrow> live_response eventual" where
  "live_fetch f =
     (case f of
        (t, Rejected e) \<Rightarrow> Some (t, Rejected e)
      | (t, Fulfilled (Response b)) \<Rightarrow> Some (t, Fulfilled (LiveResponse (Some b))))"

definition live_of :: "run_env \<Rightarrow> live_env" where
  "live_of env =
     \<lparr>live_price_fetch = live_fetch (price_fetch env),
      live_report_fetch = live_fetch (report_fetch env),
      live_timer_late = timer_late env\<rparr>"

section \<open>Executions\<close>

text \<open>
  JavaScript runs each handler to its next \<open>await\<close> without interruption, so an
  execution of the component is a sequence of three kinds of step: a click on Start
  (the statements up to the \<open>await\<close>), the resumption of a pending \<open>startBraincast\<close>
  with the settled join, and a click on New Report. The trace of a step lists the state
  after each of its setter calls, in order.
\<close>

datatype event = Start | Resume "jsval list settled" | NewReport

fun step :: "event \<Rightarrow> app_state \<Rightarrow> app_state" where
  "step Start s = startBraincast_begin s"
| "step (Resume awaited) s = startBraincast_resume awaited s"
| "step NewReport s = newReport s"

definition try_trace :: "jsval list settled \<Rightarrow> app_state \<Rightarrow> app_state list" where
  "try_trace awaited s =
     (case awaited of
        Rejected e \<Rightarrow> []
      | Fulfilled xs \<Rightarrow>
          (case processPrice (element xs 0) of
             Inl e \<Rightarrow> []
           | Inr bp \<Rightarrow>
               (case processReport (element xs 1) of
                  Inl e \<Rightarrow> [setBtcPrice (Some bp) s]
                | Inr rd \<Rightarrow>
                    [setBtcPrice (Some bp) s, setReport (Some rd) (setBtcPrice (Some bp) s)])))"

definition catch_trace :: "app_state \<Rightarrow> app_state list" where
  "catch_trace s =
     [setBtcPrice (Some \<lparr>price = JNum 113279, change24h = JNum (- 2.76)\<rparr>) s, catch_block s]"

fun step_trace :: "event \<Rightarrow> app_state \<Rightarrow> app_state list" where
  "step_trace Start s =
     [setScreen Loading s, setBtcPrice None (setScreen Loading s), startBraincast_begin s]"
| "step_trace (Resume awaited) s =
     (case try_block awaited s of
        (None, s') \<Rightarrow> try_trace awaited s @ [setScreen Report s']
      | (Some e, s') \<Rightarrow>
          try_trace awaited s @ catch_trace s' @ [setScreen Report (catch_block s')])"
| "step_trace NewReport s = [newReport s]"

text \<open>Every state an execution passes through, the starting state first.\<close>

fun trace :: "event list \<Rightarrow> app_state \<Rightarrow> app_state list" where
  "trace [] s = [s]"
| "trace (ev # evs) s = s # butlast (step_trace ev s) @ trace evs (step ev s)"

text \<open>A value that is neither \<open>null\<close> nor \<open>undefined\<close>.\<close>

definition populated :: "jsval \<Rightarrow> bool" where
  "populated v = (\<not> nullish v)"

definition btcPrice_populated :: "BtcPrice \<Rightarrow> bool" where
  "btcPrice_populated bp = (populated (price bp) \<and> populated (change24h bp))"

definition report_populated :: "ReportData \<Rightarrow> bool" where
  "report_populated rd =
     (populated (direction rd) \<and> populated (entryPrice rd) \<and> populated (targetPrice rd)
      \<and> populated (stopPrice rd) \<and> populated (leverage rd))"

text \<open>The report screen has both of its data, each with every field.\<close>

definition report_complete :: "app_state \<Rightarrow> bool" where
  "report_complete s =
     (screen s = Report \<longrightarrow>
       (case btcPrice s of None \<Rightarrow> False | Some bp \<Rightarrow> btcPrice_populated bp)
       \<and> (case report s of None \<Rightarrow> False | Some rd \<Rightarrow> report_populated rd))"

section \<open>Notions of the specification\<close>

text \<open>
  The specification speaks of a result that carries a field, of the value of a field,
  and of a chain of candidates that ends in a constant. These follow its words, to be
  compared with what the source computes.
\<close>

definition carries_field :: "jsval \<Rightarrow> string \<Rightarrow> bool" where
  "carries_field v k = (case v of JObj kvs \<Rightarrow> k \<in> set (map fst kvs) | _ \<Rightarrow> False)"

definition field :: "jsval \<Rightarrow> string \<Rightarrow> jsval" where
  "field v k =
     (case v of
        JObj kvs \<Rightarrow> (case map_of kvs k of Some x \<Rightarrow> x | None \<Rightarrow> JUndefined)
      | _ \<Rightarrow> JUndefined)"

fun first_defined :: "jsval list \<Rightarrow> jsval \<Rightarrow> jsval" where
  "first_defined [] d = d"
| "first_defined (v # vs) d = (if nullish v then first_defined vs d else v)"

text \<open>The test of line 61 holds: the source takes the branch that reads the fields.\<close>

definition considered_present :: "jsval \<Rightarrow> bool" where
  "considered_present reportData =
     (case reportPresent reportData of Inr c \<Rightarrow> truthy c | Inl e \<Rightarrow> False)"

section \<open>Properties of the normalisation\<close>

lemma bindE_simps [simp]:
  "bindE (Inl e) f = Inl e"
  "bindE (Inr v) f = f v"
  by (simp_all add: bindE_def)

lemma truthy_not_nullish: "truthy v \<Longrightarrow> \<not> nullish v"
  by (cases v) simp_all

lemma get_prop_field: "\<not> nullish v \<Longrightarrow> get_prop v k = Inr (field v k)"
  by (cases v) (simp_all add: field_def)

lemma field_not_obj: "\<forall>kvs. v \<noteq> JObj kvs \<Longrightarrow> field v k = JUndefined"
  by (cases v) (simp_all add: field_def)

lemmas report_defs = reportPresent_def reportDirection_def reportEntryPrice_def
  reportTargetPrice_def reportStopPrice_def reportLeverage_def
  js_and_def js_or_def js_get_def js_coalesce_def js_opt_get_def

lemma processPrice_eq:
  "processPrice v =
     Inr (case field v ''price'' of
            JNum x \<Rightarrow> \<lparr>price = JNum (Math_round x),
                       change24h = (if typeof (field v ''change24h'') = ''number''
                                    then field v ''change24h'' else JNum 0)\<rparr>
          | _ \<Rightarrow> fallbackBtcPrice)"
proof (cases "truthy v")
  case True
  then have "\<not> nullish v" by (rule truthy_not_nullish)
  then show ?thesis using True
    by (cases "field v ''price''")
       (simp_all add: processPrice_def get_prop_field fallbackBtcPrice_def)
next
  case False
  then have "\<forall>kvs. v \<noteq> JObj kvs" by auto
  then have "field v ''price'' = JUndefined" by (rule field_not_obj)
  then show ?thesis using False by (simp add: processPrice_def fallbackBtcPrice_def)
qed

lemma reportPresent_eq:
  "reportPresent v =
     Inr (if truthy v
          then (if truthy (field v ''signal'') then field v ''signal''
                else field v ''direction'')
          else v)"
  by (simp add: report_defs get_prop_field truthy_not_nullish)

lemma considered_present_iff:
  "considered_present v \<longleftrightarrow> truthy (field v ''signal'') \<or> truthy (field v ''direction'')"
proof (cases "truthy v")
  case True
  then show ?thesis by (simp add: considered_present_def reportPresent_eq)
next
  case False
  then have "\<forall>kvs. v \<noteq> JObj kvs" by auto
  then have "field v ''signal'' = JUndefined" "field v ''direction'' = JUndefined"
    by (simp_all add: field_not_obj)
  then show ?thesis using False by (simp add: considered_present_def reportPresent_eq)
qed

lemma considered_present_obj: "considered_present v \<Longrightarrow> \<exists>kvs. v = JObj kvs"
  unfolding considered_present_iff by (cases v) (simp_all add: field_def)

lemma processReport_eq:
  "processReport v =
     Inr (if considered_present v then
            \<lparr>direction = (if truthy (field v ''signal'') then field v ''signal''
                          else field v ''direction''),
             entryPrice = first_defined [field v ''entryPrice'',
                            field (field v ''technicalData'') ''entryPrice''] (JNum 119500),
             targetPrice = first_defined [field v ''targetPrice'', field v ''exitPrice'']
                            (JNum 121500),
             stopPrice = first_defined [field v ''stopPrice'', field v ''stopLoss'']
                            (JNum 119200),
             leverage = first_defined [field v ''leverage''] (JNum 30)\<rparr>
          else fallbackReport)"
proof (cases "considered_present v")
  case True
  then obtain kvs where v: "v = JObj kvs" using considered_present_obj by blast
  have nn: "\<not> nullish v" by (simp add: v)
  have td: "nullish (field v ''technicalData'')
      \<Longrightarrow> field (field v ''technicalData'') ''entryPrice'' = JUndefined"
    by (cases "field v ''technicalData''") (simp_all add: field_def)
  have c: "truthy (field v ''signal'') \<or> truthy (field v ''direction'')"
    using True by (simp add: considered_present_iff)
  have p: "reportPresent v =
      Inr (if truthy (field v ''signal'') then field v ''signal'' else field v ''direction'')"
    by (simp add: reportPresent_eq v)
  show ?thesis using True c
    by (auto simp add: processReport_def p reportDirection_def reportEntryPrice_def
        reportTargetPrice_def reportStopPrice_def reportLeverage_def
        js_or_def js_get_def js_coalesce_def js_opt_get_def get_prop_field nn td)
next
  case False
  then show ?thesis
    by (auto simp add: processReport_def considered_present_def fallbackReport_def
        reportPresent_eq split: if_splits)
qed

section \<open>Properties of the handlers\<close>

lemma btcPrice_populated_processPrice: "processPrice v = Inr bp \<Longrightarrow> btcPrice_populated bp"
  unfolding processPrice_eq
  by (cases "field v ''price''"; cases "field v ''change24h''")
     (auto simp add: btcPrice_populated_def populated_def fallbackBtcPrice_def)

lemma first_defined_populated: "\<not> nullish d \<Longrightarrow> \<not> nullish (first_defined vs d)"
  by (induction vs) simp_all

lemma report_populated_processReport: "processReport v = Inr rd \<Longrightarrow> report_populated rd"
  unfolding processReport_eq
  by (auto simp add: report_populated_def populated_def fallbackReport_def considered_present_iff
      first_defined_populated truthy_not_nullish simp del: first_defined.simps split: if_splits)

text \<open>Neither normalisation throws, so the body of \<open>try\<close> only fails with the join.\<close>

lemma processPrice_returns: "\<exists>bp. processPrice v = Inr bp"
  by (simp add: processPrice_eq)

lemma processReport_returns: "\<exists>rd. processReport v = Inr rd"
  by (simp add: processReport_eq)

lemma try_block_Fulfilled:
  "\<exists>bp rd. processPrice (element xs 0) = Inr bp \<and> processReport (element xs 1) = Inr rd
     \<and> try_block (Fulfilled xs) s = (None, setReport (Some rd) (setBtcPrice (Some bp) s))"
proof -
  obtain bp where bp: "processPrice (element xs 0) = Inr bp"
    using processPrice_returns by blast
  obtain rd where rd: "processReport (element xs 1) = Inr rd"
    using processReport_returns by blast
  have "try_block (Fulfilled xs) s = (None, setReport (Some rd) (setBtcPrice (Some bp) s))"
    using bp rd by (simp add: try_block_def)
  then show ?thesis using bp rd by blast
qed

lemma catch_block_eq:
  "catch_block s =
     \<lparr>screen = screen s, btcPrice = Some fallbackBtcPrice, report = Some fallbackReport\<rparr>"
  by (simp add: catch_block_def setBtcPrice_def setReport_def fallbackBtcPrice_def
      fallbackReport_def)

lemma caught_fulfilled:
  "\<exists>t v. catch_p p h = (t, Fulfilled v)"
  by (cases p) (auto simp add: catch_p_def split: settled.splits)

lemma awaited_all_eq:
  "\<exists>p r. awaited_all env =
     (max (fst (pricePromise env)) (max (fst (reportPromise env)) (3500 + timer_late env)),
      Fulfilled [p, r, JUndefined])
    \<and> snd (pricePromise env) = Fulfilled p \<and> snd (reportPromise env) = Fulfilled r"
proof -
  obtain t1 p where 1: "pricePromise env = (t1, Fulfilled p)"
    using caught_fulfilled [of "then_p (price_fetch env) json" "\<lambda>e. JNull"]
    by (auto simp add: pricePromise_def)
  obtain t2 r where 2: "reportPromise env = (t2, Fulfilled r)"
    using caught_fulfilled [of "then_p (report_fetch env) json" "\<lambda>e. JNull"]
    by (auto simp add: reportPromise_def)
  show ?thesis
    by (simp add: awaited_all_def 1 2 delayPromise_def timeout_promise_def)
qed

lemma last_step_trace: "last (step_trace ev s) = step ev s"
  by (cases ev)
     (auto simp add: startBraincast_resume_def catch_trace_def split: prod.splits option.splits)

lemma step_trace_nonempty: "step_trace ev s \<noteq> []"
  by (cases ev) (auto simp add: catch_trace_def split: prod.splits option.splits)

lemma startBraincast_resume_Fulfilled:
  "\<exists>bp rd. processPrice (element xs 0) = Inr bp \<and> processReport (element xs 1) = Inr rd
     \<and> startBraincast_resume (Fulfilled xs) s =
         \<lparr>screen = Report, btcPrice = Some bp, report = Some rd\<rparr>"
proof -
  obtain bp rd where "processPrice (element xs 0) = Inr bp" "processReport (element xs 1) = Inr rd"
    "try_block (Fulfilled xs) s = (None, setReport (Some rd) (setBtcPrice (Some bp) s))"
    using try_block_Fulfilled by blast
  then show ?thesis
    by (simp add: startBraincast_resume_def setScreen_def setBtcPrice_def setReport_def)
qed

lemma startBraincast_begin_eq:
  "startBraincast_begin s = \<lparr>screen = Loading, btcPrice = None, report = None\<rparr>"
  by (simp add: startBraincast_begin_def setScreen_def setBtcPrice_def setReport_def)

lemma startBraincast_eq:
  "\<exists>p r bp rd. snd (pricePromise env) = Fulfilled p \<and> snd (reportPromise env) = Fulfilled r
     \<and> processPrice p = Inr bp \<and> processReport r = Inr rd
     \<and> startBraincast env s =
         (max (fst (pricePromise env)) (max (fst (reportPromise env)) (3500 + timer_late env)),
          \<lparr>screen = Report, btcPrice = Some bp, report = Some rd\<rparr>)"
proof -
  obtain p r where a: "awaited_all env =
     (max (fst (pricePromise env)) (max (fst (reportPromise env)) (3500 + timer_late env)),
      Fulfilled [p, r, JUndefined])"
    and p: "snd (pricePromise env) = Fulfilled p" and r: "snd (reportPromise env) = Fulfilled r"
    using awaited_all_eq by blast
  obtain bp rd where "processPrice (element [p, r, JUndefined] 0) = Inr bp"
    "processReport (element [p, r, JUndefined] 1) = Inr rd"
    "startBraincast_resume (Fulfilled [p, r, JUndefined]) (startBraincast_begin s)
       = \<lparr>screen = Report, btcPrice = Some bp, report = Some rd\<rparr>"
    using startBraincast_resume_Fulfilled by blast
  then show ?thesis using p r
    by (simp add: startBraincast_def a element_def)
qed

lemma step_trace_complete:
  assumes "report_complete s" and "x \<in> set (step_trace ev s)"
  shows "report_complete x"
proof (cases ev)
  case Start
  then show ?thesis using assms
    by (auto simp add: report_complete_def startBraincast_begin_def setScreen_def
        setBtcPrice_def setReport_def)
next
  case (Resume awaited)
  show ?thesis
  proof (cases awaited)
    case (Rejected e)
    then show ?thesis using assms Resume
      by (auto simp add: report_complete_def try_block_def try_trace_def catch_trace_def
          catch_block_eq setScreen_def setBtcPrice_def fallbackBtcPrice_def fallbackReport_def
          btcPrice_populated_def report_populated_def populated_def split: option.splits)
  next
    case (Fulfilled xs)
    obtain bp rd where bp: "processPrice (element xs 0) = Inr bp"
      and rd: "processReport (element xs 1) = Inr rd"
      using startBraincast_resume_Fulfilled by blast
    have "btcPrice_populated bp" "report_populated rd"
      using bp rd btcPrice_populated_processPrice report_populated_processReport by blast+
    moreover have "step_trace (Resume (Fulfilled xs)) s =
        [setBtcPrice (Some bp) s, setReport (Some rd) (setBtcPrice (Some bp) s),
         setScreen Report (setReport (Some rd) (setBtcPrice (Some bp) s))]"
      using bp rd by (simp add: try_block_def try_trace_def)
    ultimately show ?thesis using assms Resume Fulfilled
      by (auto simp add: report_complete_def setScreen_def setBtcPrice_def setReport_def
          split: option.splits)
  qed
next
  case NewReport
  then show ?thesis using assms
    by (auto simp add: report_complete_def newReport_def setScreen_def)
qed

lemma trace_complete:
  "report_complete s \<Longrightarrow> x \<in> set (trace evs s) \<Longrightarrow> report_complete x"
proof (induction evs arbitrary: s)
  case Nil
  then show ?case by simp
next
  case (Cons ev evs)
  have l: "step ev s \<in> set (step_trace ev s)"
    using last_step_trace [of ev s] step_trace_nonempty [of ev s] last_in_set by metis
  from Cons.prems(2) consider "x = s" | "x \<in> set (butlast (step_trace ev s))"
    | "x \<in> set (trace evs (step ev s))" by auto
  then show ?case
  proof cases
    case 1
    then show ?thesis using Cons.prems(1) by simp
  next
    case 2
    then have "x \<in> set (step_trace ev s)" by (rule in_set_butlastD)
    then show ?thesis using Cons.prems(1) step_trace_complete by blast
  next
    case 3
    have "report_complete (step ev s)" using l Cons.prems(1) step_trace_complete by blast
    then show ?thesis using 3 Cons.IH by blast
  qed
qed

text \<open>Runs whose fetches may stay pending.\<close>

lemma startBraincast_resume_screen: "screen (startBraincast_resume awaited s) = Report"
  by (cases "try_block awaited s"; cases "fst (try_block awaited s)")
     (simp_all add: startBraincast_resume_def setScreen_def)

lemma live_caught_settles:
  "settles f \<Longrightarrow> \<exists>t v. catch_e (then_e f live_json) (\<lambda>e. JNull) = Some (t, Fulfilled v)"
  by (auto simp add: catch_e_def then_e_def catch_p_def settles_def
      split: option.splits prod.splits settled.splits live_response.splits)

lemma live_caught_pending:
  "\<not> settles f \<Longrightarrow> catch_e (then_e f live_json) (\<lambda>e. JNull) = None"
  by (auto simp add: catch_e_def then_e_def catch_p_def settles_def
      split: option.splits prod.splits settled.splits live_response.splits)

lemma live_awaited_all_settles:
  assumes "settles (live_price_fetch env)" and "settles (live_report_fetch env)"
  shows "\<exists>t xs. live_awaited_all env = Some (t, Fulfilled xs)"
proof -
  obtain t1 p where 1: "live_pricePromise env = Some (t1, Fulfilled p)"
    using live_caught_settles [OF assms(1)] by (auto simp add: live_pricePromise_def)
  obtain t2 r where 2: "live_reportPromise env = Some (t2, Fulfilled r)"
    using live_caught_settles [OF assms(2)] by (auto simp add: live_reportPromise_def)
  show ?thesis
    by (simp add: live_awaited_all_def all_e_def 1 2 live_delayPromise_def timeout_promise_def)
qed

lemma live_awaited_all_pending:
  assumes "\<not> settles (live_price_fetch env) \<or> \<not> settles (live_report_fetch env)"
  shows "live_awaited_all env = None"
proof -
  have a: "live_pricePromise env = None \<or> (\<exists>t v. live_pricePromise env = Some (t, Fulfilled v))"
    using live_caught_settles [of "live_price_fetch env"] live_caught_pending [of "live_price_fetch env"]
    by (auto simp add: live_pricePromise_def)
  have b: "live_reportPromise env = None \<or> (\<exists>t v. live_reportPromise env = Some (t, Fulfilled v))"
    using live_caught_settles [of "live_report_fetch env"] live_caught_pending [of "live_report_fetch env"]
    by (auto simp add: live_reportPromise_def)
  have c: "live_pricePromise env = None \<or> live_reportPromise env = None"
    using assms live_caught_pending by (auto simp add: live_pricePromise_def live_reportPromise_def)
  show ?thesis using a b c
    by (auto simp add: live_awaited_all_def all_e_def live_delayPromise_def timeout_promise_def)
qed

lemma live_fetch_caught:
  "catch_e (then_e (live_fetch f) live_json) (\<lambda>e. JNull) = Some (catch_p (then_p f json) (\<lambda>e. JNull))"
  by (auto simp add: live_fetch_def catch_e_def then_e_def catch_p_def then_p_def
      split: prod.splits settled.splits response.splits)

lemma live_startBraincast_live_of:
  "live_startBraincast (live_of env) s =
     (Some (fst (startBraincast env s)), snd (startBraincast env s))"
proof -
  obtain p r where a: "awaited_all env =
     (max (fst (pricePromise env)) (max (fst (reportPromise env)) (3500 + timer_late env)),
      Fulfilled [p, r, JUndefined])"
    and p: "snd (pricePromise env) = Fulfilled p" and r: "snd (reportPromise env) = Fulfilled r"
    using awaited_all_eq by blast
  have 1: "live_pricePromise (live_of env) = Some (pricePromise env)"
    by (simp add: live_pricePromise_def live_of_def live_fetch_caught pricePromise_def)
  have 2: "live_reportPromise (live_of env) = Some (reportPromise env)"
    by (simp add: live_reportPromise_def live_of_def live_fetch_caught reportPromise_def)
  have 3: "live_delayPromise (live_of env) = Some (delayPromise env)"
    by (simp add: live_delayPromise_def delayPromise_def live_of_def)
  have "live_awaited_all (live_of env) = Some (awaited_all env)"
    using a by (simp add: live_awaited_all_def all_e_def 1 2 3 awaited_all_def)
  then show ?thesis
    by (cases "awaited_all env") (simp add: live_startBraincast_def startBraincast_def)
qed

section \<open>The claims\<close>

text \<open>
  C1. In every execution of the component, started in its initial state and made of any
  sequence of clicks on Start, resumptions of \<open>startBraincast\<close> and clicks on New
  Report, every state in which the screen is \<open>report\<close>, the states between two setter
  calls included, holds a price snapshot and a trade report, and no field of either is
  \<open>null\<close> or \<open>undefined\<close>.
\<close>

theorem report_screen_complete:
  "s \<in> set (trace evs initial_state) \<Longrightarrow> screen s = Report \<Longrightarrow>
     \<exists>bp rd. btcPrice s = Some bp \<and> report s = Some rd
       \<and> btcPrice_populated bp \<and> report_populated rd"
proof -
  assume a: "s \<in> set (trace evs initial_state)" and r: "screen s = Report"
  have "report_complete initial_state"
    by (simp add: report_complete_def initial_state_def)
  then have "report_complete s" using a by (rule trace_complete)
  then show ?thesis using r
    by (auto simp add: report_complete_def split: option.splits)
qed

theorem report_screen_complete_witness:
  "\<lparr>screen = Report,
    btcPrice = Some \<lparr>price = JNum 113279, change24h = JNum (- 2.76)\<rparr>,
    report = Some \<lparr>direction = JStr ''LONG'', entryPrice = JNum 119500, targetPrice = JNum 121500,
                   stopPrice = JNum 119200, leverage = JNum 30\<rparr>\<rparr>
     \<in> set (trace [Start, Resume (Fulfilled [JNull, JNull, JUndefined])] initial_state)
   \<and> btcPrice_populated \<lparr>price = JNum 113279, change24h = JNum (- 2.76)\<rparr>
   \<and> report_populated \<lparr>direction = JStr ''LONG'', entryPrice = JNum 119500, targetPrice = JNum 121500,
                   stopPrice = JNum 119200, leverage = JNum 30\<rparr>"
proof -
  let ?s = "\<lparr>screen = Report,
    btcPrice = Some \<lparr>price = JNum 113279, change24h = JNum (- 2.76)\<rparr>,
    report = Some \<lparr>direction = JStr ''LONG'', entryPrice = JNum 119500, targetPrice = JNum 121500,
                   stopPrice = JNum 119200, leverage = JNum 30\<rparr>\<rparr>"
  let ?evs = "[Start, Resume (Fulfilled [JNull, JNull, JUndefined])]"
  have m: "?s \<in> set (trace ?evs initial_state)"
    by (simp add: initial_state_def startBraincast_begin_def startBraincast_resume_def
        try_block_def try_trace_def element_def processPrice_def processReport_def report_defs
        setScreen_def setBtcPrice_def setReport_def)
  have r: "screen ?s = Report" by simp
  show ?thesis using m report_screen_complete [OF m r] by simp
qed

text \<open>
  C2, as stated, fails: a run in which the price fetch never settles, or in which the
  body of the price response is never read to its end, does not resume after the
  \<open>await\<close> and leaves the screen at \<open>loading\<close>.
\<close>

theorem pending_fetch_stays_loading:
  "live_startBraincast
     \<lparr>live_price_fetch = None,
      live_report_fetch = Some (80, Fulfilled (LiveResponse (Some (5, Fulfilled JNull)))),
      live_timer_late = 0\<rparr> initial_state
   = (None, \<lparr>screen = Loading, btcPrice = None, report = None\<rparr>)
   \<and> live_startBraincast
     \<lparr>live_price_fetch = Some (80, Fulfilled (LiveResponse None)),
      live_report_fetch = Some (95, Rejected NetworkError),
      live_timer_late = 0\<rparr> initial_state
   = (None, \<lparr>screen = Loading, btcPrice = None, report = None\<rparr>)"
  by (simp add: live_startBraincast_def live_awaited_all_def all_e_def live_pricePromise_def
      live_reportPromise_def live_delayPromise_def timeout_promise_def catch_e_def then_e_def
      catch_p_def startBraincast_begin_eq)

text \<open>
  C2, amended. \<open>startBraincast\<close> sets the screen to \<open>loading\<close>, and every run in which
  both fetches settle ends with the screen set to \<open>report\<close>: the part after the
  \<open>await\<close> ends so on each of its paths, the join fulfilled with any values or the join
  rejected and the exception caught. A run in which a fetch does not settle stays at
  \<open>loading\<close> with no data.
\<close>

theorem startBraincast_reaches_report_if_settled:
  "screen (startBraincast_begin s) = Loading
   \<and> screen (startBraincast_resume awaited s) = Report
   \<and> screen (snd (startBraincast env s)) = Report
   \<and> live_startBraincast (live_of env) s
       = (Some (fst (startBraincast env s)), snd (startBraincast env s))
   \<and> (settles (live_price_fetch lenv) \<and> settles (live_report_fetch lenv)
        \<longrightarrow> (\<exists>t. fst (live_startBraincast lenv s) = Some t)
            \<and> screen (snd (live_startBraincast lenv s)) = Report)
   \<and> (\<not> settles (live_price_fetch lenv) \<or> \<not> settles (live_report_fetch lenv)
        \<longrightarrow> live_startBraincast lenv s
              = (None, \<lparr>screen = Loading, btcPrice = None, report = None\<rparr>))"
proof -
  have 1: "screen (startBraincast_begin s) = Loading"
    by (simp add: startBraincast_begin_eq)
  have 2: "screen (startBraincast_resume awaited s) = Report"
    by (rule startBraincast_resume_screen)
  have 3: "screen (snd (startBraincast env s)) = Report"
    by (cases "awaited_all env") (simp add: startBraincast_def startBraincast_resume_screen)
  have 4: "live_startBraincast (live_of env) s
       = (Some (fst (startBraincast env s)), snd (startBraincast env s))"
    by (rule live_startBraincast_live_of)
  have 5: "(\<exists>t. fst (live_startBraincast lenv s) = Some t)
            \<and> screen (snd (live_startBraincast lenv s)) = Report"
    if h: "settles (live_price_fetch lenv) \<and> settles (live_report_fetch lenv)"
  proof -
    obtain t xs where "live_awaited_all lenv = Some (t, Fulfilled xs)"
      using h live_awaited_all_settles by blast
    then show ?thesis
      by (simp add: live_startBraincast_def startBraincast_resume_screen)
  qed
  have 6: "live_startBraincast lenv s
              = (None, \<lparr>screen = Loading, btcPrice = None, report = None\<rparr>)"
    if "\<not> settles (live_price_fetch lenv) \<or> \<not> settles (live_report_fetch lenv)"
    using live_awaited_all_pending [OF that]
    by (simp add: live_startBraincast_def startBraincast_begin_eq)
  show ?thesis using 1 2 3 4 5 6 by blast
qed

theorem startBraincast_reaches_report_if_settled_witness:
  "settles (Some (120, Rejected NetworkError))
   \<and> settles (Some (95, Fulfilled (LiveResponse (Some (40, Rejected SyntaxError)))))
   \<and> (\<exists>t. fst (live_startBraincast
        \<lparr>live_price_fetch = Some (120, Rejected NetworkError),
         live_report_fetch = Some (95, Fulfilled (LiveResponse (Some (40, Rejected SyntaxError)))),
         live_timer_late = 0\<rparr> initial_state) = Some t)
   \<and> screen (snd (live_startBraincast
        \<lparr>live_price_fetch = Some (120, Rejected NetworkError),
         live_report_fetch = Some (95, Fulfilled (LiveResponse (Some (40, Rejected SyntaxError)))),
         live_timer_late = 0\<rparr> initial_state)) = Report
   \<and> \<not> settles (Some (80, Fulfilled (LiveResponse None)))
   \<and> live_startBraincast
        \<lparr>live_price_fetch = Some (80, Fulfilled (LiveResponse None)),
         live_report_fetch = Some (95, Rejected NetworkError),
         live_timer_late = 0\<rparr> initial_state
       = (None, \<lparr>screen = Loading, btcPrice = None, report = None\<rparr>)"
proof -
  let ?a = "\<lparr>live_price_fetch = Some (120, Rejected NetworkError),
         live_report_fetch = Some (95, Fulfilled (LiveResponse (Some (40, Rejected SyntaxError)))),
         live_timer_late = 0\<rparr>"
  let ?b = "\<lparr>live_price_fetch = Some (80, Fulfilled (LiveResponse None)),
         live_report_fetch = Some (95, Rejected NetworkError),
         live_timer_late = 0\<rparr>"
  have h1: "settles (Some (120, Rejected NetworkError))"
    and h2: "settles (Some (95, Fulfilled (LiveResponse (Some (40, Rejected SyntaxError)))))"
    and h3: "\<not> settles (Some (80, Fulfilled (LiveResponse None)))"
    by (simp_all add: settles_def)
  show ?thesis
    using h1 h2 h3
      startBraincast_reaches_report_if_settled [of initial_state _ _ ?a]
      startBraincast_reaches_report_if_settled [of initial_state _ _ ?b]
    by simp
qed

text \<open>
  C3. With time counted in milliseconds from the invocation, \<open>setScreen('report')\<close> runs
  at the latest of the three settling times: that of the price promise, that of the
  report promise and that of the timer, which is 3500 plus the timer's lateness. So it
  never runs before 3500, and runs at 3500 exactly when both fetches and their bodies
  settle at once and the timer is punctual.
\<close>

theorem startBraincast_not_before_3500:
  "fst (startBraincast env s)
     = max (fst (pricePromise env)) (max (fst (reportPromise env)) (3500 + timer_late env))
   \<and> 3500 \<le> fst (startBraincast env s)
   \<and> fst (startBraincast
            \<lparr>price_fetch = (0, Fulfilled (Response (0, Fulfilled p))),
             report_fetch = (0, Fulfilled (Response (0, Fulfilled r))),
             timer_late = 0\<rparr> s) = 3500"
proof -
  obtain st where "startBraincast env s =
      (max (fst (pricePromise env)) (max (fst (reportPromise env)) (3500 + timer_late env)), st)"
    using startBraincast_eq [of env s] by blast
  then have 1: "fst (startBraincast env s)
     = max (fst (pricePromise env)) (max (fst (reportPromise env)) (3500 + timer_late env))"
    by simp
  have 2: "fst (startBraincast
            \<lparr>price_fetch = (0, Fulfilled (Response (0, Fulfilled p))),
             report_fetch = (0, Fulfilled (Response (0, Fulfilled r))),
             timer_late = 0\<rparr> s) = 3500"
    by (simp add: startBraincast_def awaited_all_def pricePromise_def reportPromise_def
        delayPromise_def timeout_promise_def catch_p_def then_p_def)
  show ?thesis using 1 2 by simp
qed

text \<open>
  C5. When the price result is \<open>null\<close> or its \<open>price\<close> field is not a number, the
  snapshot is \<open>{price: 113279, change24h: -2.76}\<close>. When the \<open>price\<close> field is the
  number \<open>x\<close>, the snapshot's price is the integer \<open>\<lfloor>x + 1/2\<rfloor>\<close>, at most one half away
  from \<open>x\<close>, and its \<open>change24h\<close> is the result's \<open>change24h\<close> when that is a number
  and 0 otherwise. The snapshot so produced is the one held after a run in which the
  price endpoint answers with that result.
\<close>

theorem processPrice_spec:
  "(v = JNull \<or> typeof (field v ''price'') \<noteq> ''number''
      \<longrightarrow> processPrice v = Inr \<lparr>price = JNum 113279, change24h = JNum (- 2.76)\<rparr>)
   \<and> (field v ''price'' = JNum x
      \<longrightarrow> processPrice v =
            Inr \<lparr>price = JNum (of_int \<lfloor>x + 1 / 2\<rfloor>),
                 change24h = (if typeof (field v ''change24h'') = ''number''
                              then field v ''change24h'' else JNum 0)\<rparr>
          \<and> \<bar>of_int \<lfloor>x + 1 / 2\<rfloor> - x\<bar> \<le> 1 / 2)
   \<and> (\<exists>bp. processPrice v = Inr bp
          \<and> btcPrice (snd (startBraincast
                (env\<lparr>price_fetch := (t, Fulfilled (Response (d, Fulfilled v)))\<rparr>) s))
              = Some bp)"
proof -
  let ?env = "env\<lparr>price_fetch := (t, Fulfilled (Response (d, Fulfilled v)))\<rparr>"
  have "snd (pricePromise ?env) = Fulfilled v"
    by (simp add: pricePromise_def then_p_def catch_p_def)
  then have 4: "\<exists>bp. processPrice v = Inr bp
      \<and> btcPrice (snd (startBraincast ?env s)) = Some bp"
    using startBraincast_eq [of ?env s] by auto
  have n: "field JNull ''price'' = JUndefined" by (simp add: field_def)
  have 1: "processPrice v = Inr \<lparr>price = JNum 113279, change24h = JNum (- 2.76)\<rparr>"
    if "v = JNull \<or> typeof (field v ''price'') \<noteq> ''number''"
    using that n by (cases "field v ''price''") (auto simp add: processPrice_eq fallbackBtcPrice_def)
  have 2: "processPrice v =
            Inr \<lparr>price = JNum (of_int \<lfloor>x + 1 / 2\<rfloor>),
                 change24h = (if typeof (field v ''change24h'') = ''number''
                              then field v ''change24h'' else JNum 0)\<rparr>"
    if "field v ''price'' = JNum x"
    using that by (simp add: processPrice_eq Math_round_def)
  have 3: "\<bar>of_int \<lfloor>x + 1 / 2\<rfloor> - x\<bar> \<le> 1 / 2"
    by linarith
  show ?thesis using 1 2 3 4 by blast
qed

theorem processPrice_spec_witness:
  "processPrice JNull = Inr \<lparr>price = JNum 113279, change24h = JNum (- 2.76)\<rparr>
   \<and> processPrice (JObj [(''price'', JStr ''not-a-number'')])
       = Inr \<lparr>price = JNum 113279, change24h = JNum (- 2.76)\<rparr>
   \<and> field (JObj [(''price'', JNum 65000.7), (''change24h'', JNum 1.2)]) ''price'' = JNum 65000.7
   \<and> processPrice (JObj [(''price'', JNum 65000.7), (''change24h'', JNum 1.2)])
       = Inr \<lparr>price = JNum 65001, change24h = JNum 1.2\<rparr>"
  using processPrice_spec [of JNull] processPrice_spec [of "JObj [(''price'', JStr ''not-a-number'')]"]
    processPrice_spec [of "JObj [(''price'', JNum 65000.7), (''change24h'', JNum 1.2)]" "65000.7"]
  by (simp add: field_def)

text \<open>
  C6. The report result \<open>{signal: "SHORT", entryPrice: 70000, stopLoss: 71000}\<close> is
  normalised to \<open>{direction: SHORT, entryPrice: 70000, targetPrice: 121500,
  stopPrice: 71000, leverage: 30}\<close>, and that is the report held after a run in which
  the report endpoint answers with it, whatever the price endpoint and the timer do.
\<close>

theorem scenario_short_report:
  "processReport
     (JObj [(''signal'', JStr ''SHORT''), (''entryPrice'', JNum 70000), (''stopLoss'', JNum 71000)])
     = Inr \<lparr>direction = JStr ''SHORT'', entryPrice = JNum 70000, targetPrice = JNum 121500,
            stopPrice = JNum 71000, leverage = JNum 30\<rparr>
   \<and> report (snd (startBraincast
        (env\<lparr>report_fetch := (t, Fulfilled (Response (d, Fulfilled
           (JObj [(''signal'', JStr ''SHORT''), (''entryPrice'', JNum 70000),
                  (''stopLoss'', JNum 71000)]))))\<rparr>) s))
     = Some \<lparr>direction = JStr ''SHORT'', entryPrice = JNum 70000, targetPrice = JNum 121500,
             stopPrice = JNum 71000, leverage = JNum 30\<rparr>"
proof -
  let ?obj = "JObj [(''signal'', JStr ''SHORT''), (''entryPrice'', JNum 70000),
                    (''stopLoss'', JNum 71000)]"
  let ?env = "env\<lparr>report_fetch := (t, Fulfilled (Response (d, Fulfilled ?obj)))\<rparr>"
  have 1: "processReport ?obj
     = Inr \<lparr>direction = JStr ''SHORT'', entryPrice = JNum 70000, targetPrice = JNum 121500,
            stopPrice = JNum 71000, leverage = JNum 30\<rparr>"
    by (simp add: processReport_def report_defs)
  have r: "snd (reportPromise ?env) = Fulfilled ?obj"
    by (simp add: reportPromise_def then_p_def catch_p_def)
  obtain p r' bp rd where "snd (reportPromise ?env) = Fulfilled r'" "processReport r' = Inr rd"
    "startBraincast ?env s =
         (max (fst (pricePromise ?env)) (max (fst (reportPromise ?env)) (3500 + timer_late ?env)),
          \<lparr>screen = Report, btcPrice = Some bp, report = Some rd\<rparr>)"
    using startBraincast_eq [of ?env s] by blast
  then have 2: "report (snd (startBraincast ?env s))
     = Some \<lparr>direction = JStr ''SHORT'', entryPrice = JNum 70000, targetPrice = JNum 121500,
             stopPrice = JNum 71000, leverage = JNum 30\<rparr>"
    using r 1 by simp
  show ?thesis using 1 2 by simp
qed



text \<open>
  C8, as stated, fails: \<open>newReport\<close> run on a report screen that holds a price snapshot
  and a trade report leaves both in place. Such a state arises from the initial one by
  a run in which both fetches fail.
\<close>

theorem newReport_retains_data:
  "newReport \<lparr>screen = Report,
      btcPrice = Some \<lparr>price = JNum 113279, change24h = JNum (- 2.76)\<rparr>,
      report = Some \<lparr>direction = JStr ''LONG'', entryPrice = JNum 119500,
                       targetPrice = JNum 121500, stopPrice = JNum 119200,
                       leverage = JNum 30\<rparr>\<rparr>
   = \<lparr>screen = Landing,
      btcPrice = Some \<lparr>price = JNum 113279, change24h = JNum (- 2.76)\<rparr>,
      report = Some \<lparr>direction = JStr ''LONG'', entryPrice = JNum 119500,
                       targetPrice = JNum 121500, stopPrice = JNum 119200,
                       leverage = JNum 30\<rparr>\<rparr>
   \<and> btcPrice (newReport (snd (startBraincast
        \<lparr>price_fetch = (120, Rejected NetworkError), report_fetch = (95, Rejected NetworkError),
         timer_late = 0\<rparr> initial_state))) \<noteq> None
   \<and> report (newReport (snd (startBraincast
        \<lparr>price_fetch = (120, Rejected NetworkError), report_fetch = (95, Rejected NetworkError),
         timer_late = 0\<rparr> initial_state))) \<noteq> None"
  by (simp add: newReport_def setScreen_def startBraincast_def awaited_all_def pricePromise_def
      reportPromise_def delayPromise_def timeout_promise_def catch_p_def then_p_def
      startBraincast_begin_def startBraincast_resume_def try_block_def element_def
      processPrice_def processReport_def report_defs setBtcPrice_def setReport_def
      initial_state_def)

text \<open>
  C8, amended. From every prior state \<open>newReport\<close> yields the screen \<open>landing\<close> and
  leaves the price snapshot and the trade report as they were; both are discarded when
  the next \<open>startBraincast\<close> begins.
\<close>

theorem newReport_then_begin_discards:
  "screen (newReport s) = Landing
   \<and> btcPrice (newReport s) = btcPrice s
   \<and> report (newReport s) = report s
   \<and> startBraincast_begin (newReport s) = \<lparr>screen = Loading, btcPrice = None, report = None\<rparr>"
  by (simp add: newReport_def setScreen_def startBraincast_begin_eq)

text \<open>
  C9. \<open>newReport\<close> changes the screen to \<open>landing\<close> and nothing else: the price
  snapshot and the trade report are unchanged, and a second \<open>newReport\<close> right after the
  first changes nothing.
\<close>

theorem newReport_only_sets_screen:
  "newReport s = s\<lparr>screen := Landing\<rparr>
   \<and> btcPrice (newReport s) = btcPrice s
   \<and> report (newReport s) = report s
   \<and> newReport (newReport s) = newReport s"
  by (simp add: newReport_def setScreen_def)

text \<open>
  C10. When the \<open>signal\<close> field of the report result is a non-empty string, the
  report's direction is that string; when \<open>signal\<close> is falsy and \<open>direction\<close> is a
  non-empty string, the report's direction is that string. Nothing confines it to
  \<open>LONG\<close>, \<open>SHORT\<close> and \<open>NONE\<close>.
\<close>

theorem direction_not_validated:
  "(field v ''signal'' = JStr sg \<and> sg \<noteq> []
      \<longrightarrow> (\<exists>rd. processReport v = Inr rd \<and> direction rd = JStr sg))
   \<and> (\<not> truthy (field v ''signal'') \<and> field v ''direction'' = JStr dr \<and> dr \<noteq> []
      \<longrightarrow> (\<exists>rd. processReport v = Inr rd \<and> direction rd = JStr dr))"
  by (simp add: processReport_eq considered_present_iff)

theorem direction_not_validated_witness:
  "field (JObj [(''signal'', JStr ''MOON'')]) ''signal'' = JStr ''MOON'' \<and> ''MOON'' \<noteq> []
   \<and> ''MOON'' \<notin> {''LONG'', ''SHORT'', ''NONE''}
   \<and> (\<exists>rd. processReport (JObj [(''signal'', JStr ''MOON'')]) = Inr rd
          \<and> direction rd = JStr ''MOON'')
   \<and> \<not> truthy (field (JObj [(''signal'', JNull), (''direction'', JStr ''SIDEWAYS'')]) ''signal'')
   \<and> field (JObj [(''signal'', JNull), (''direction'', JStr ''SIDEWAYS'')]) ''direction''
       = JStr ''SIDEWAYS''
   \<and> (\<exists>rd. processReport (JObj [(''signal'', JNull), (''direction'', JStr ''SIDEWAYS'')]) = Inr rd
          \<and> direction rd = JStr ''SIDEWAYS'')"
  using direction_not_validated [of "JObj [(''signal'', JStr ''MOON'')]" "''MOON''"]
    direction_not_validated [of "JObj [(''signal'', JNull), (''direction'', JStr ''SIDEWAYS'')]" _
      "''SIDEWAYS''"]
  by (simp add: field_def)

text \<open>
  C4, as stated, fails: the result \<open>{signal: null, entryPrice: 70000}\<close> carries a
  \<open>signal\<close> field, yet the test of line 61 fails on it and the whole fallback report is
  used, its entry price 119500 and not 70000.
\<close>

theorem present_field_not_enough:
  "carries_field (JObj [(''signal'', JNull), (''entryPrice'', JNum 70000)]) ''signal''
   \<and> \<not> considered_present (JObj [(''signal'', JNull), (''entryPrice'', JNum 70000)])
   \<and> processReport (JObj [(''signal'', JNull), (''entryPrice'', JNum 70000)])
       = Inr \<lparr>direction = JStr ''LONG'', entryPrice = JNum 119500, targetPrice = JNum 121500,
              stopPrice = JNum 119200, leverage = JNum 30\<rparr>"
  by (simp add: carries_field_def considered_present_def processReport_def report_defs)

text \<open>
  C4, amended. The report result is considered present exactly when it is truthy and
  its \<open>signal\<close> field or its \<open>direction\<close> field is truthy. The direction expression
  yields \<open>signal\<close> if truthy, else \<open>direction\<close> if truthy, else \<open>LONG\<close>. When the result is
  present the direction is \<open>signal\<close> if truthy and \<open>direction\<close> otherwise, and each other
  field is the first of its candidates that is neither \<open>null\<close> nor \<open>undefined\<close>, or
  its constant. When the result is not present the whole fallback report is used.
\<close>

theorem processReport_spec:
  "(considered_present v \<longleftrightarrow>
      truthy v \<and> (truthy (field v ''signal'') \<or> truthy (field v ''direction'')))
   \<and> (\<not> nullish v \<longrightarrow>
        reportDirection v =
          Inr (if truthy (field v ''signal'') then field v ''signal''
               else if truthy (field v ''direction'') then field v ''direction''
               else JStr ''LONG''))
   \<and> (considered_present v \<longrightarrow>
        processReport v =
          Inr \<lparr>direction = (if truthy (field v ''signal'') then field v ''signal''
                            else field v ''direction''),
               entryPrice = first_defined [field v ''entryPrice'',
                              field (field v ''technicalData'') ''entryPrice''] (JNum 119500),
               targetPrice = first_defined [field v ''targetPrice'', field v ''exitPrice'']
                              (JNum 121500),
               stopPrice = first_defined [field v ''stopPrice'', field v ''stopLoss'']
                              (JNum 119200),
               leverage = first_defined [field v ''leverage''] (JNum 30)\<rparr>)
   \<and> (\<not> considered_present v \<longrightarrow>
        processReport v =
          Inr \<lparr>direction = JStr ''LONG'', entryPrice = JNum 119500, targetPrice = JNum 121500,
               stopPrice = JNum 119200, leverage = JNum 30\<rparr>)"
proof -
  have 1: "considered_present v \<longleftrightarrow>
      truthy v \<and> (truthy (field v ''signal'') \<or> truthy (field v ''direction''))"
    using considered_present_obj [of v] by (auto simp add: considered_present_iff)
  have 2: "reportDirection v =
          Inr (if truthy (field v ''signal'') then field v ''signal''
               else if truthy (field v ''direction'') then field v ''direction''
               else JStr ''LONG'')" if "\<not> nullish v"
    using that by (simp add: reportDirection_def js_or_def js_get_def get_prop_field)
  have 3: "processReport v =
          Inr \<lparr>direction = (if truthy (field v ''signal'') then field v ''signal''
                            else field v ''direction''),
               entryPrice = first_defined [field v ''entryPrice'',
                              field (field v ''technicalData'') ''entryPrice''] (JNum 119500),
               targetPrice = first_defined [field v ''targetPrice'', field v ''exitPrice'']
                              (JNum 121500),
               stopPrice = first_defined [field v ''stopPrice'', field v ''stopLoss'']
                              (JNum 119200),
               leverage = first_defined [field v ''leverage''] (JNum 30)\<rparr>"
    if "considered_present v"
    using that by (simp only: processReport_eq if_True)
  have 4: "processReport v =
          Inr \<lparr>direction = JStr ''LONG'', entryPrice = JNum 119500, targetPrice = JNum 121500,
               stopPrice = JNum 119200, leverage = JNum 30\<rparr>"
    if "\<not> considered_present v"
    using that by (simp only: processReport_eq if_False fallbackReport_def)
  show ?thesis using 1 2 3 4 by blast
qed

theorem processReport_spec_witness:
  "considered_present (JObj [(''direction'', JStr ''SHORT''), (''exitPrice'', JNum 69000),
       (''technicalData'', JObj [(''entryPrice'', JNum 70000)])])
   \<and> processReport (JObj [(''direction'', JStr ''SHORT''), (''exitPrice'', JNum 69000),
       (''technicalData'', JObj [(''entryPrice'', JNum 70000)])])
       = Inr \<lparr>direction = JStr ''SHORT'', entryPrice = JNum 70000, targetPrice = JNum 69000,
              stopPrice = JNum 119200, leverage = JNum 30\<rparr>
   \<and> \<not> nullish (JObj [(''signal'', JStr '''')])
   \<and> reportDirection (JObj [(''signal'', JStr '''')]) = Inr (JStr ''LONG'')
   \<and> \<not> considered_present (JObj [(''signal'', JStr '''')])
   \<and> processReport (JObj [(''signal'', JStr '''')])
       = Inr \<lparr>direction = JStr ''LONG'', entryPrice = JNum 119500, targetPrice = JNum 121500,
              stopPrice = JNum 119200, leverage = JNum 30\<rparr>"
  using processReport_spec [of "JObj [(''direction'', JStr ''SHORT''), (''exitPrice'', JNum 69000),
       (''technicalData'', JObj [(''entryPrice'', JNum 70000)])]"]
    processReport_spec [of "JObj [(''signal'', JStr '''')]"]
  by (simp add: field_def)

end
